theory Spec2Isabelle
  imports Main "HOL-Library.Sublist"
begin

section \<open>JavaScript values and string primitives\<close>

text \<open>
  Strings are lists of characters. The source tests strings for truthiness
  (\<^verbatim>\<open>if (s)\<close>, \<^verbatim>\<open>!s\<close>): the empty string is falsy, every other
  string is truthy. An optional string (\<^verbatim>\<open>string | undefined\<close>,
  \<^verbatim>\<open>string | null\<close>) is a \<^typ>\<open>string option\<close>; absent is falsy.
\<close>

definition truthy :: "string option \<Rightarrow> bool" where
  "truthy s = (case s of None \<Rightarrow> False | Some v \<Rightarrow> v \<noteq> [])"

text \<open>
  \<^verbatim>\<open>String.prototype.toLowerCase\<close>, on the ASCII letters; the case mapping
  of characters outside ASCII is not modelled.
\<close>

definition lowerChar :: "char \<Rightarrow> char" where
  "lowerChar c =
     (if 65 \<le> (of_char c :: nat) \<and> (of_char c :: nat) \<le> 90
      then char_of ((of_char c :: nat) + 32) else c)"

definition toLowerCase :: "string \<Rightarrow> string" where
  "toLowerCase s = map lowerChar s"

text \<open>\<^verbatim>\<open>String.prototype.includes\<close>: the argument occurs as a contiguous run.\<close>

fun includesStr :: "string \<Rightarrow> string \<Rightarrow> bool" where
  "includesStr [] t = (t = [])"
| "includesStr (x # xs) t = (prefix t (x # xs) \<or> includesStr xs t)"

text \<open>
  \<^verbatim>\<open>String.prototype.split\<close> with a one-character separator and no limit:
  every occurrence of the separator cuts, and the result always has at least
  one element.
\<close>

fun splitOn :: "char \<Rightarrow> string \<Rightarrow> string list" where
  "splitOn c [] = [[]]"
| "splitOn c (x # xs) =
     (if x = c then [] # splitOn c xs
      else (case splitOn c xs of
              [] \<Rightarrow> [[x]]
            | w # ws \<Rightarrow> (x # w) # ws))"

text \<open>\<^verbatim>\<open>s.split(sep, limit)\<close>: split everywhere, then keep the first \<open>limit\<close> pieces.\<close>

definition splitLimit :: "char \<Rightarrow> nat \<Rightarrow> string \<Rightarrow> string list" where
  "splitLimit c limit s = take limit (splitOn c s)"

text \<open>\<^verbatim>\<open>Array.prototype.join\<close> on strings.\<close>

fun join :: "string \<Rightarrow> string list \<Rightarrow> string" where
  "join sep [] = []"
| "join sep [x] = x"
| "join sep (x # y # ys) = x @ sep @ join sep (y # ys)"

text \<open>Decimal rendering of numbers, as a template literal renders an integer.\<close>

definition digitChar :: "nat \<Rightarrow> char" where
  "digitChar d = char_of (48 + d mod 10)"

fun showNat :: "nat \<Rightarrow> string" where
  "showNat n = (if n < 10 then [digitChar n] else showNat (n div 10) @ [digitChar n])"

declare showNat.simps [simp del]

definition showInt :: "int \<Rightarrow> string" where
  "showInt i = (if i < 0 then CHR ''-'' # showNat (nat (- i)) else showNat (nat i))"

text \<open>
  A JavaScript value of the JSON kind. Numbers are integers here; an object is
  the list of its own enumerable entries in \<^verbatim>\<open>Object.entries\<close> order.
\<close>

datatype jsval =
    JNull
  | JUndefined
  | JBool bool
  | JNum int
  | JStr string
  | JArr "jsval list"
  | JObj "(string \<times> jsval) list"

text \<open>
  A thrown value. \<open>ErrorObj message props\<close> is an instance of \<^verbatim>\<open>Error\<close>
  (or of a subclass) with its message and its further own properties;
  \<open>NonError v\<close> is any other value. \<^verbatim>\<open>new Error(m)\<close> is \<open>ErrorObj m []\<close>.
\<close>

datatype exn = ErrorObj string "(string \<times> jsval) list" | NonError jsval

definition newError :: "string \<Rightarrow> exn" where
  "newError m = ErrorObj m []"

text \<open>
  The \<^verbatim>\<open>catch\<close> blocks of the two JSON-contract tools:
  \<^verbatim>\<open>error instanceof Error ? error.message : 'An unknown error occurred'\<close>.
\<close>

definition errorMessage :: "exn \<Rightarrow> string" where
  "errorMessage e =
     (case e of ErrorObj m _ \<Rightarrow> m | NonError _ \<Rightarrow> ''An unknown error occurred'')"

section \<open>filter-helpers\<close>

datatype ResponsibleUserFiltering = assigned | unassignedOrMe | all

text \<open>
  \<^verbatim>\<open>appendToQuery(query, filterComponent)\<close>
\<close>

definition appendToQuery :: "string \<Rightarrow> string \<Rightarrow> string" where
  "appendToQuery query filterComponent =
     (if length filterComponent = 0 then query
      else if length query = 0 then filterComponent
      else query @ '' & '' @ filterComponent)"

text \<open>
  \<^verbatim>\<open>filterTasksByResponsibleUser<T extends { responsibleUid: string | null }>\<close>:
  generic in the task type, which only has to carry a \<open>responsibleUid\<close>.
\<close>

record HasResponsibleUid =
  responsibleUid :: "string option"

definition filterTasksByResponsibleUser ::
  "'a HasResponsibleUid_scheme list \<Rightarrow> string option \<Rightarrow> string
     \<Rightarrow> ResponsibleUserFiltering option \<Rightarrow> 'a HasResponsibleUid_scheme list" where
  "filterTasksByResponsibleUser tasks resolvedAssigneeId currentUserId responsibleUserFiltering =
     (let mode = (case responsibleUserFiltering of None \<Rightarrow> unassignedOrMe | Some m \<Rightarrow> m)
      in if truthy resolvedAssigneeId
         then filter (\<lambda>task. responsibleUid task = resolvedAssigneeId) tasks
         else if mode = unassignedOrMe
              then filter (\<lambda>task. \<not> truthy (responsibleUid task)
                                  \<or> responsibleUid task = Some currentUserId) tasks
              else tasks)"

section \<open>utils: labels, priorities, durations, constants\<close>

datatype LabelsOperator = And | Or

text \<open>
  Modelled from the spec: \<^verbatim>\<open>generateLabelsFilter\<close> of
  \<^verbatim>\<open>utils/labels.ts\<close>, which is imported by the tools but is not among the
  source files. The spec (4.1): each label is normalised by stripping a leading
  \<open>@\<close> before re-adding it; an empty list gives the empty string; otherwise
  the prefixed labels are joined with the operator surrounded by double spaces
  and the whole is put in one pair of parentheses. The operator defaults to
  \<open>or\<close>, an absent label list to the empty list.
\<close>

definition normalizeLabel :: "string \<Rightarrow> string" where
  "normalizeLabel label =
     CHR ''@'' # (if prefix ''@'' label then drop 1 label else label)"

definition operatorJoiner :: "LabelsOperator option \<Rightarrow> string" where
  "operatorJoiner labelsOperator =
     (if labelsOperator = Some And then ''  &  '' else ''  |  '')"

definition generateLabelsFilter :: "string list option \<Rightarrow> LabelsOperator option \<Rightarrow> string" where
  "generateLabelsFilter labels labelsOperator =
     (let ls = (case labels of None \<Rightarrow> [] | Some l \<Rightarrow> l)
      in if length ls = 0 then []
         else ''('' @ join (operatorJoiner labelsOperator) (map normalizeLabel ls) @ '')'')"

datatype Priority = p1 | p2 | p3 | p4

text \<open>\<^verbatim>\<open>convertPriorityToNumber\<close> and \<^verbatim>\<open>convertNumberToPriority\<close>.\<close>

fun convertPriorityToNumber :: "Priority \<Rightarrow> int" where
  "convertPriorityToNumber p1 = 4"
| "convertPriorityToNumber p2 = 3"
| "convertPriorityToNumber p3 = 2"
| "convertPriorityToNumber p4 = 1"

definition convertNumberToPriority :: "int \<Rightarrow> Priority option" where
  "convertNumberToPriority priority =
     (if priority = 4 then Some p1
      else if priority = 3 then Some p2
      else if priority = 2 then Some p3
      else if priority = 1 then Some p4
      else None)"

text \<open>
  Modelled from the spec: \<^verbatim>\<open>formatDuration\<close> of
  \<^verbatim>\<open>utils/duration-parser.ts\<close>, not among the source files. The spec (4.4, 8):
  minutes become a compact string, \<open>0m\<close> for zero, hours and minutes
  otherwise, with no \<open>0m\<close> after whole hours.
\<close>

definition formatDuration :: "nat \<Rightarrow> string" where
  "formatDuration minutes =
     (if minutes = 0 then ''0m''
      else (if minutes div 60 = 0 then [] else showNat (minutes div 60) @ ''h'')
         @ (if minutes mod 60 = 0 then [] else showNat (minutes mod 60) @ ''m''))"


section \<open>tool-helpers\<close>

text \<open>
  The entities of the API client library. Fields of the raw task carry the
  prefix \<open>task_\<close>, those of the raw project \<open>project_\<close>; the mapped task keeps
  the source's names, except \<open>ident\<close> for \<open>id\<close> and an \<open>m\<close> in front of the
  four names that the tool arguments use as well.
\<close>

record Due =
  due_date :: string
  due_isRecurring :: bool
  due_string :: string

record Duration =
  duration_amount :: nat
  duration_unit :: string

record Task =
  task_id :: string
  task_content :: string
  task_description :: string
  task_due :: "Due option"
  task_priority :: int
  task_projectId :: string
  task_sectionId :: "string option"
  task_parentId :: "string option"
  task_labels :: "string list"
  task_duration :: "Duration option"
  task_responsibleUid :: "string option"
  task_assignedByUid :: "string option"

record MappedTask = HasResponsibleUid +
  ident :: string
  content :: string
  description :: string
  dueDate :: "string option"
  recurring :: "string option"
  priority :: int
  mProjectId :: string
  mSectionId :: "string option"
  mParentId :: "string option"
  mLabels :: "string list"
  duration :: "string option"
  assignedByUid :: "string option"

text \<open>
  \<^verbatim>\<open>mapTask\<close>. The field \<open>recurring\<close> is \<open>None\<close> for the source's
  \<^verbatim>\<open>false\<close>.
\<close>

definition mapTask :: "Task \<Rightarrow> MappedTask" where
  "mapTask task =
     \<lparr> responsibleUid = task_responsibleUid task,
       ident = task_id task,
       content = task_content task,
       description = task_description task,
       dueDate = map_option due_date (task_due task),
       recurring =
         (case task_due task of
            None \<Rightarrow> None
          | Some d \<Rightarrow> if due_isRecurring d \<and> due_string d \<noteq> [] then Some (due_string d) else None),
       priority = task_priority task,
       mProjectId = task_projectId task,
       mSectionId = task_sectionId task,
       mParentId = task_parentId task,
       mLabels = task_labels task,
       duration =
         (case task_duration task of
            None \<Rightarrow> None
          | Some d \<Rightarrow> Some (formatDuration (duration_amount d))),
       assignedByUid = task_assignedByUid task \<rparr>"

text \<open>
  A project is a personal or a workspace project; only the personal one has
  \<open>parentId\<close> and \<open>inboxProject\<close> (\<^verbatim>\<open>isPersonalProject\<close> tests
  \<^verbatim>\<open>'inboxProject' in project\<close>).
\<close>

datatype ProjectVariant =
    PersonalProject "string option" "bool option"
  | WorkspaceProject

record Project =
  project_id :: string
  project_name :: string
  project_color :: string
  project_isFavorite :: bool
  project_isShared :: bool
  project_viewStyle :: string
  project_variant :: ProjectVariant

record MappedProject =
  mp_id :: string
  mp_name :: string
  mp_color :: string
  mp_isFavorite :: bool
  mp_isShared :: bool
  mp_parentId :: "string option"
  mp_inboxProject :: bool
  mp_viewStyle :: string

definition mapProject :: "Project \<Rightarrow> MappedProject" where
  "mapProject project =
     \<lparr> mp_id = project_id project,
       mp_name = project_name project,
       mp_color = project_color project,
       mp_isFavorite = project_isFavorite project,
       mp_isShared = project_isShared project,
       mp_parentId =
         (case project_variant project of
            PersonalProject parent _ \<Rightarrow> parent
          | WorkspaceProject \<Rightarrow> None),
       mp_inboxProject =
         (case project_variant project of
            PersonalProject _ inbox \<Rightarrow> (case inbox of None \<Rightarrow> False | Some b \<Rightarrow> b)
          | WorkspaceProject \<Rightarrow> False),
       mp_viewStyle = project_viewStyle project \<rparr>"

text \<open>
  \<^verbatim>\<open>ErrorSchema.safeParse\<close>: the thrown value has to be an object with a
  number \<open>httpStatusCode\<close> and an object \<open>responseData\<close> holding a string
  \<open>error\<close>, a number \<open>errorCode\<close> and a string \<open>errorTag\<close>.
\<close>

record ResponseData =
  rd_error :: string
  rd_errorCode :: int
  rd_errorTag :: string

record ParsedError =
  httpStatusCode :: int
  responseData :: ResponseData

definition ownProperties :: "exn \<Rightarrow> (string \<times> jsval) list option" where
  "ownProperties e =
     (case e of
        ErrorObj _ props \<Rightarrow> Some props
      | NonError (JObj props) \<Rightarrow> Some props
      | NonError _ \<Rightarrow> None)"

definition parseResponseData :: "(string \<times> jsval) list \<Rightarrow> ResponseData option" where
  "parseResponseData props =
     (case (map_of props ''error'', map_of props ''errorCode'', map_of props ''errorTag'') of
        (Some (JStr e), Some (JNum c), Some (JStr t)) \<Rightarrow>
          Some \<lparr> rd_error = e, rd_errorCode = c, rd_errorTag = t \<rparr>
      | _ \<Rightarrow> None)"

definition ErrorSchema_safeParse :: "exn \<Rightarrow> ParsedError option" where
  "ErrorSchema_safeParse e =
     (case ownProperties e of
        None \<Rightarrow> None
      | Some props \<Rightarrow>
          (case (map_of props ''httpStatusCode'', map_of props ''responseData'') of
             (Some (JNum status), Some (JObj rd)) \<Rightarrow>
               (case parseResponseData rd of
                  None \<Rightarrow> None
                | Some r \<Rightarrow> Some \<lparr> httpStatusCode = status, responseData = r \<rparr>)
           | _ \<Rightarrow> None))"

text \<open>
  The API client. Each method either fails with a thrown value or returns its
  result. \<open>api_resolveUserNameToId\<close> stands for the collaborator lookup of
  \<^verbatim>\<open>utils/user-resolver.ts\<close>, which is not among the source files.
\<close>

record User =
  user_id :: string

record TasksPage =
  api_results :: "Task list"
  api_nextCursor :: "string option"

record FilterArgs =
  fa_query :: string
  fa_lang :: "string option"
  fa_cursor :: "string option"
  fa_limit :: "nat option"

record GetTasksArgs =
  ga_limit :: nat
  ga_cursor :: "string option"
  ga_projectId :: "string option"
  ga_sectionId :: "string option"
  ga_parentId :: "string option"

record ResolvedUser =
  userId :: string
  email :: string

record TodoistApi =
  api_getUser :: "exn + User"
  api_getTask :: "string \<Rightarrow> exn + Task"
  api_getProject :: "string \<Rightarrow> exn + Project"
  api_getProjects :: "nat \<Rightarrow> exn + Project list"
  api_getTasks :: "GetTasksArgs \<Rightarrow> exn + TasksPage"
  api_getTasksByFilter :: "FilterArgs \<Rightarrow> exn + TasksPage"
  api_resolveUserNameToId :: "string \<Rightarrow> exn + ResolvedUser option"

record MappedPage =
  page_tasks :: "MappedTask list"
  page_nextCursor :: "string option"

text \<open>\<^verbatim>\<open>getTasksByFilter\<close> of the tool helpers, with its error translation.\<close>

definition getTasksByFilter ::
  "TodoistApi \<Rightarrow> string \<Rightarrow> nat option \<Rightarrow> string option \<Rightarrow> exn + MappedPage" where
  "getTasksByFilter client query limit cursor =
     (case api_getTasksByFilter client \<lparr> fa_query = query, fa_lang = None, fa_cursor = cursor, fa_limit = limit \<rparr> of
        Inr page \<Rightarrow> Inr \<lparr> page_tasks = map mapTask (api_results page),
                          page_nextCursor = api_nextCursor page \<rparr>
      | Inl error \<Rightarrow>
          (case ErrorSchema_safeParse error of
             None \<Rightarrow> Inl error
           | Some parsedError \<Rightarrow>
               (let rd = responseData parsedError
                in if rd_errorTag rd = ''INVALID_SEARCH_QUERY''
                   then Inl (newError (''Invalid filter query: '' @ query))
                   else Inl (newError (rd_error rd @ '' (tag: '' @ rd_errorTag rd
                                        @ '', code: '' @ showInt (rd_errorCode rd) @ '')'')))))"

section \<open>Tool envelopes\<close>

text \<open>
  A content item is always of type \<open>text\<close>. Its text is either a plain
  message or \<^verbatim>\<open>JSON.stringify\<close> of a document; the serialisation itself is
  not modelled, \<open>JsonText d\<close> stands for the JSON text of \<open>d\<close>.
\<close>

datatype 'a payload = PlainText string | JsonText 'a

record 'a ToolOutput =
  out_content :: "'a payload list"
  isError :: "bool option"

text \<open>
  Modelled from the spec: \<^verbatim>\<open>getErrorOutput\<close> of \<^verbatim>\<open>mcp-helpers.ts\<close>, not
  among the source files. The spec (4.6, 6): a single text item with
  \<open>isError: true\<close> and the plain error message as payload.
\<close>

definition getErrorOutput :: "string \<Rightarrow> 'a ToolOutput" where
  "getErrorOutput message = \<lparr> out_content = [PlainText message], isError = Some True \<rparr>"

definition jsOptString :: "string option \<Rightarrow> jsval" where
  "jsOptString s = (case s of None \<Rightarrow> JNull | Some v \<Rightarrow> JStr v)"

section \<open>tools: fetch\<close>

record FetchResult =
  fr_id :: string
  fr_title :: string
  fr_text :: string
  fr_url :: string
  fr_metadata :: jsval

definition invalidIdMessage :: string where
  "invalidIdMessage =
     ''Invalid ID format. Expected '' @ [CHR 0x22] @ ''task:{id}'' @ [CHR 0x22] @ '' or ''
       @ [CHR 0x22] @ ''project:{id}'' @ [CHR 0x22] @ ''. Example: '' @ [CHR 0x22]
       @ ''task:8485093748'' @ [CHR 0x22] @ '' or '' @ [CHR 0x22] @ ''project:6cfCcrrCFg2xP94Q''
       @ [CHR 0x22]"

definition fetchTaskResult :: "(string \<Rightarrow> string \<Rightarrow> string) \<Rightarrow> MappedTask \<Rightarrow> FetchResult" where
  "fetchTaskResult buildTodoistUrl mappedTask =
     (let textParts =
            [content mappedTask]
            @ (if description mappedTask \<noteq> []
               then [[CHR 0x0A, CHR 0x0A] @ ''Description: '' @ description mappedTask] else [])
            @ (if truthy (dueDate mappedTask)
               then [[CHR 0x0A] @ ''Due: '' @ the (dueDate mappedTask)] else [])
            @ (if length (mLabels mappedTask) > 0
               then [[CHR 0x0A] @ ''Labels: '' @ join '', '' (mLabels mappedTask)] else [])
      in \<lparr> fr_id = ''task:'' @ ident mappedTask,
           fr_title = content mappedTask,
           fr_text = concat textParts,
           fr_url = buildTodoistUrl ''task'' (ident mappedTask),
           fr_metadata = JObj
             [(''priority'', JNum (priority mappedTask)),
              (''projectId'', JStr (mProjectId mappedTask)),
              (''sectionId'', jsOptString (mSectionId mappedTask)),
              (''parentId'', jsOptString (mParentId mappedTask)),
              (''recurring'', (case recurring mappedTask of None \<Rightarrow> JBool False | Some r \<Rightarrow> JStr r)),
              (''duration'', jsOptString (duration mappedTask)),
              (''responsibleUid'', jsOptString (responsibleUid mappedTask)),
              (''assignedByUid'', jsOptString (assignedByUid mappedTask))] \<rparr>)"

definition fetchProjectResult :: "(string \<Rightarrow> string \<Rightarrow> string) \<Rightarrow> MappedProject \<Rightarrow> FetchResult" where
  "fetchProjectResult buildTodoistUrl mappedProject =
     (let textParts =
            [mp_name mappedProject]
            @ (if mp_isShared mappedProject then [[CHR 0x0A, CHR 0x0A] @ ''Shared project''] else [])
            @ (if mp_isFavorite mappedProject then [[CHR 0x0A] @ ''Favorite: Yes''] else [])
      in \<lparr> fr_id = ''project:'' @ mp_id mappedProject,
           fr_title = mp_name mappedProject,
           fr_text = concat textParts,
           fr_url = buildTodoistUrl ''project'' (mp_id mappedProject),
           fr_metadata = JObj
             [(''color'', JStr (mp_color mappedProject)),
              (''isFavorite'', JBool (mp_isFavorite mappedProject)),
              (''isShared'', JBool (mp_isShared mappedProject)),
              (''parentId'', jsOptString (mp_parentId mappedProject)),
              (''inboxProject'', JBool (mp_inboxProject mappedProject)),
              (''viewStyle'', JStr (mp_viewStyle mappedProject))] \<rparr>)"

text \<open>
  The body of the \<^verbatim>\<open>try\<close> block of \<^verbatim>\<open>fetch.execute\<close>; a throw is \<open>Inl\<close>.
  \<^verbatim>\<open>const [type, objectId] = id.split(':', 2)\<close> binds the first two pieces,
  \<open>objectId\<close> being undefined when there is only one. The URL builder
  \<^verbatim>\<open>buildTodoistUrl\<close> is not among the source files and is a parameter.
\<close>

definition fetch_try ::
  "(string \<Rightarrow> string \<Rightarrow> string) \<Rightarrow> TodoistApi \<Rightarrow> string \<Rightarrow> exn + FetchResult" where
  "fetch_try buildTodoistUrl client id0 =
     (let parts = splitLimit CHR '':'' 2 id0;
          type = (case parts of [] \<Rightarrow> None | t # _ \<Rightarrow> Some t);
          objectId = (case parts of _ # oid # _ \<Rightarrow> Some oid | _ \<Rightarrow> None)
      in if \<not> truthy objectId \<or> (type \<noteq> Some ''task'' \<and> type \<noteq> Some ''project'')
         then Inl (newError invalidIdMessage)
         else if type = Some ''task''
              then (case api_getTask client (the objectId) of
                      Inl e \<Rightarrow> Inl e
                    | Inr task \<Rightarrow> Inr (fetchTaskResult buildTodoistUrl (mapTask task)))
              else (case api_getProject client (the objectId) of
                      Inl e \<Rightarrow> Inl e
                    | Inr project \<Rightarrow> Inr (fetchProjectResult buildTodoistUrl (mapProject project))))"

definition fetch_execute ::
  "(string \<Rightarrow> string \<Rightarrow> string) \<Rightarrow> TodoistApi \<Rightarrow> string \<Rightarrow> FetchResult ToolOutput" where
  "fetch_execute buildTodoistUrl client id0 =
     (case fetch_try buildTodoistUrl client id0 of
        Inr result \<Rightarrow> \<lparr> out_content = [JsonText result], isError = None \<rparr>
      | Inl error \<Rightarrow> getErrorOutput (errorMessage error))"

section \<open>tools: search\<close>






section \<open>Calendar dates\<close>

text \<open>
  The date-fns calls \<^verbatim>\<open>addDays\<close> and \<^verbatim>\<open>formatISO\<close> belong to a library
  outside the repository. They are modelled on calendar dates (year, month,
  day) for a process whose local time zone is UTC, where the instant that
  \<^verbatim>\<open>new Date('YYYY-MM-DD')\<close> denotes (midnight UTC) falls on that same local
  day.
\<close>

type_synonym CalDate = "nat \<times> nat \<times> nat"

definition isLeapYear :: "nat \<Rightarrow> bool" where
  "isLeapYear y = ((y mod 4 = 0 \<and> y mod 100 \<noteq> 0) \<or> y mod 400 = 0)"

definition daysInMonth :: "nat \<Rightarrow> nat \<Rightarrow> nat" where
  "daysInMonth y m =
     (if m = 2 then (if isLeapYear y then 29 else 28)
      else if m = 4 \<or> m = 6 \<or> m = 9 \<or> m = 11 then 30
      else 31)"


definition nextDay :: "CalDate \<Rightarrow> CalDate" where
  "nextDay dt =
     (case dt of (y, m, d) \<Rightarrow>
        if d < daysInMonth y m then (y, m, d + 1)
        else if m < 12 then (y, m + 1, 1)
        else (y + 1, 1, 1))"

text \<open>\<^verbatim>\<open>addDays(date, amount)\<close> for a day count that is a natural number.\<close>

fun addDays :: "CalDate \<Rightarrow> nat \<Rightarrow> CalDate" where
  "addDays dt 0 = dt"
| "addDays dt (Suc n) = nextDay (addDays dt n)"

definition isDigit :: "char \<Rightarrow> bool" where
  "isDigit c = (48 \<le> (of_char c :: nat) \<and> (of_char c :: nat) \<le> 57)"

definition digitsToNat :: "string \<Rightarrow> nat" where
  "digitsToNat s = foldl (\<lambda>a c. 10 * a + ((of_char c :: nat) - 48)) 0 s"

definition parseNat :: "string \<Rightarrow> nat option" where
  "parseNat s = (if s \<noteq> [] \<and> list_all isDigit s then Some (digitsToNat s) else None)"

text \<open>
  \<^verbatim>\<open>new Date(s)\<close> for a string of the form the argument schema admits,
  \<open>YYYY-MM-DD\<close>. \<open>None\<close> is the invalid date. The engine accepts a month
  from 1 to 12 and a day from 1 to 31, and a day beyond the end of the month
  runs over into the next month.
\<close>

definition rollOver :: "CalDate \<Rightarrow> CalDate" where
  "rollOver dt =
     (case dt of (y, m, d) \<Rightarrow>
        if d > daysInMonth y m then (y, m + 1, d - daysInMonth y m) else (y, m, d))"

definition parseDate :: "string \<Rightarrow> CalDate option" where
  "parseDate s =
     (if length s = 10 \<and> s ! 4 = CHR ''-'' \<and> s ! 7 = CHR ''-''
      then (case (parseNat (take 4 s), parseNat (take 2 (drop 5 s)), parseNat (drop 8 s)) of
              (Some y, Some m, Some d) \<Rightarrow>
                if 1 \<le> m \<and> m \<le> 12 \<and> 1 \<le> d \<and> d \<le> 31 then Some (rollOver (y, m, d)) else None
            | _ \<Rightarrow> None)
      else None)"

text \<open>\<^verbatim>\<open>addLeadingZeros\<close> and \<^verbatim>\<open>formatISO(date, { representation: 'date' })\<close>.\<close>

definition addLeadingZeros :: "nat \<Rightarrow> nat \<Rightarrow> string" where
  "addLeadingZeros n targetLength =
     replicate (targetLength - length (showNat n)) CHR ''0'' @ showNat n"

definition formatISODate :: "CalDate \<Rightarrow> string" where
  "formatISODate dt =
     (case dt of (y, m, d) \<Rightarrow>
        addLeadingZeros y 4 @ ''-'' @ addLeadingZeros m 2 @ ''-'' @ addLeadingZeros d 2)"

section \<open>tools: find-tasks-by-date\<close>

datatype OverdueOption = OverdueOnly | IncludeOverdue | ExcludeOverdue

text \<open>
  The arguments that both task-finding tools take. After validation \<open>limit\<close>
  and \<open>daysCount\<close> are always present (the schema gives them defaults).
\<close>

record SharedArgs =
  limit :: nat
  cursor :: "string option"
  responsibleUserFiltering :: "ResponsibleUserFiltering option"
  labels :: "string list option"
  labelsOperator :: "LabelsOperator option"

record FindTasksByDateArgs = SharedArgs +
  startDate :: "string option"
  overdueOption :: "OverdueOption option"
  daysCount :: nat

text \<open>
  The date part of the query: the \<^verbatim>\<open>if\<close> chain that first assigns
  \<open>query\<close> in \<^verbatim>\<open>findTasksByDate.execute\<close>. \<^verbatim>\<open>formatISO\<close> throws a
  \<^verbatim>\<open>RangeError\<close> on an invalid date.
\<close>

definition dateQuery :: "FindTasksByDateArgs \<Rightarrow> exn + string" where
  "dateQuery args =
     (if overdueOption args = Some OverdueOnly then Inr ''overdue''
      else if startDate args = Some ''today''
           then Inr (if overdueOption args = Some ExcludeOverdue then ''today''
                     else ''(today | overdue)'')
      else if truthy (startDate args)
           then (case parseDate (the (startDate args)) of
                   None \<Rightarrow> Inl (newError ''Invalid time value'')
                 | Some start \<Rightarrow>
                     (let endDate = addDays start (daysCount args);
                          endDateStr = formatISODate endDate
                      in Inr (''(due after: '' @ the (startDate args) @ '' | due: ''
                              @ the (startDate args) @ '') & due before: '' @ endDateStr)))
      else Inr [])"

text \<open>The whole query of \<^verbatim>\<open>findTasksByDate.execute\<close>, up to the upstream call.\<close>

definition findTasksByDate_query :: "FindTasksByDateArgs \<Rightarrow> exn + string" where
  "findTasksByDate_query args =
     (if \<not> truthy (startDate args) \<and> overdueOption args \<noteq> Some OverdueOnly
      then Inl (newError
             ''Either startDate must be provided or overdueOption must be set to overdue-only'')
      else (case dateQuery args of
              Inl e \<Rightarrow> Inl e
            | Inr q0 \<Rightarrow>
                (let labelsFilter = generateLabelsFilter (labels args) (labelsOperator args);
                     q1 = (if length labelsFilter > 0
                           then (if length q0 > 0 then q0 @ '' & '' else q0)
                                @ ''('' @ labelsFilter @ '')''
                           else q0);
                     filteringMode = (case responsibleUserFiltering args of
                                        None \<Rightarrow> unassignedOrMe | Some m \<Rightarrow> m);
                     q2 = (if filteringMode = unassignedOrMe
                           then (if length q1 > 0 then q1 @ '' & '' else q1) @ ''!assigned to: others''
                           else if filteringMode = assigned
                           then (if length q1 > 0 then q1 @ '' & '' else q1) @ ''assigned to: others''
                           else q1)
                 in Inr q2)))"

text \<open>
  The structured content of a task-finding tool. The text summary that goes
  with it is built by helpers outside the source files and is not modelled.
\<close>

record 'a StructuredContent =
  sc_tasks :: "MappedTask list"
  sc_nextCursor :: "string option"
  totalCount :: nat
  hasMore :: bool
  appliedFilters :: 'a

definition findTasksByDate_execute ::
  "TodoistApi \<Rightarrow> FindTasksByDateArgs \<Rightarrow> exn + FindTasksByDateArgs StructuredContent" where
  "findTasksByDate_execute client args =
     (case findTasksByDate_query args of
        Inl e \<Rightarrow> Inl e
      | Inr q \<Rightarrow>
          (case getTasksByFilter client q (Some (limit args)) (cursor args) of
             Inl e \<Rightarrow> Inl e
           | Inr result \<Rightarrow>
               Inr \<lparr> sc_tasks = page_tasks result,
                     sc_nextCursor = page_nextCursor result,
                     totalCount = length (page_tasks result),
                     hasMore = truthy (page_nextCursor result),
                     appliedFilters = args \<rparr>))"

section \<open>tools: find-tasks\<close>

record FindTasksArgs = SharedArgs +
  searchText :: "string option"
  projectId :: "string option"
  sectionId :: "string option"
  parentId :: "string option"
  responsibleUser :: "string option"

text \<open>
  \<^verbatim>\<open>findTasks.execute\<close> awaits several upstream calls in sequence. A run
  is the list of the upstream calls it made, in order, with its outcome: the
  thrown value or the result.
\<close>

datatype call =
    CallGetUser
  | CallResolveUserNameToId string
  | CallGetTasks GetTasksArgs
  | CallGetTasksByFilter FilterArgs

type_synonym 'a run = "call list \<times> (exn + 'a)"

definition returns :: "'a \<Rightarrow> 'a run" where
  "returns x = ([], Inr x)"

definition throw :: "exn \<Rightarrow> 'a run" where
  "throw e = ([], Inl e)"

definition await :: "call \<Rightarrow> exn + 'a \<Rightarrow> 'a run" where
  "await c r = ([c], r)"

definition andThen :: "'a run \<Rightarrow> ('a \<Rightarrow> 'b run) \<Rightarrow> 'b run" where
  "andThen m f =
     (case m of
        (cs, Inl e) \<Rightarrow> (cs, Inl e)
      | (cs, Inr x) \<Rightarrow> (case f x of (cs', r) \<Rightarrow> (cs @ cs', r)))"

text \<open>\<^verbatim>\<open>resolveResponsibleUser\<close> of the filter helpers.\<close>

definition resolveResponsibleUser :: "TodoistApi \<Rightarrow> string option \<Rightarrow> ResolvedUser option run" where
  "resolveResponsibleUser client user =
     (if \<not> truthy user then returns None
      else andThen (await (CallResolveUserNameToId (the user))
                      (api_resolveUserNameToId client (the user)))
             (\<lambda>resolved.
                case resolved of
                  None \<Rightarrow> throw (newError (''Could not find user: '' @ [CHR 0x22] @ the user
                             @ [CHR 0x22]
                             @ ''. Make sure the user is a collaborator on a shared project.''))
                | Some r \<Rightarrow> returns (Some r)))"

definition missingFilterMessage :: string where
  "missingFilterMessage =
     ''At least one filter must be provided: searchText, projectId, sectionId, parentId, responsibleUser, or labels''"

definition hasLabels :: "FindTasksArgs \<Rightarrow> bool" where
  "hasLabels args = (case labels args of None \<Rightarrow> False | Some ls \<Rightarrow> length ls > 0)"

text \<open>The post-fetch filters of the container branch.\<close>

definition matchesSearchText :: "string \<Rightarrow> MappedTask \<Rightarrow> bool" where
  "matchesSearchText wanted task =
     (includesStr (toLowerCase (content task)) (toLowerCase wanted)
      \<or> includesStr (toLowerCase (description task)) (toLowerCase wanted))"

definition filterByLabels ::
  "string list option \<Rightarrow> LabelsOperator option \<Rightarrow> MappedTask list \<Rightarrow> MappedTask list" where
  "filterByLabels ls operator ts =
     (case ls of
        None \<Rightarrow> ts
      | Some wanted \<Rightarrow>
          if length wanted > 0
          then (if operator = Some And
                then filter (\<lambda>task. list_all (\<lambda>label. label \<in> set (mLabels task)) wanted) ts
                else filter (\<lambda>task. list_ex (\<lambda>label. label \<in> set (mLabels task)) wanted) ts)
          else ts)"

definition structured ::
  "MappedTask list \<Rightarrow> string option \<Rightarrow> 'a \<Rightarrow> 'a StructuredContent" where
  "structured ts next args =
     \<lparr> sc_tasks = ts, sc_nextCursor = next, totalCount = length ts,
       hasMore = truthy next, appliedFilters = args \<rparr>"

definition findTasks_execute ::
  "TodoistApi \<Rightarrow> FindTasksArgs \<Rightarrow> FindTasksArgs StructuredContent run" where
  "findTasks_execute client args =
     andThen (await CallGetUser (api_getUser client)) (\<lambda>todoistUser.
       if \<not> truthy (searchText args) \<and> \<not> truthy (projectId args) \<and> \<not> truthy (sectionId args)
          \<and> \<not> truthy (parentId args) \<and> \<not> truthy (responsibleUser args) \<and> \<not> hasLabels args
       then throw (newError missingFilterMessage)
       else
       andThen (resolveResponsibleUser client (responsibleUser args)) (\<lambda>resolved.
         let resolvedAssigneeId = map_option userId resolved;
             assigneeEmail = map_option email resolved
         in
         if truthy (projectId args) \<or> truthy (sectionId args) \<or> truthy (parentId args)
         then
           (let taskParams =
                  \<lparr> ga_limit = limit args,
                    ga_cursor = cursor args,
                    ga_projectId = (if truthy (projectId args) then projectId args else None),
                    ga_sectionId = (if truthy (sectionId args) then sectionId args else None),
                    ga_parentId = (if truthy (parentId args) then parentId args else None) \<rparr>
            in andThen (await (CallGetTasks taskParams) (api_getTasks client taskParams)) (\<lambda>page.
                 let mappedTasks = map mapTask (api_results page);
                     searched = (if truthy (searchText args)
                                 then filter (matchesSearchText (the (searchText args))) mappedTasks
                                 else mappedTasks);
                     byUser = filterTasksByResponsibleUser searched resolvedAssigneeId
                                (user_id todoistUser) (responsibleUserFiltering args);
                     byLabel = filterByLabels (labels args) (labelsOperator args) byUser
                 in returns (structured byLabel (api_nextCursor page) args)))
         else if truthy resolvedAssigneeId \<and> \<not> truthy (searchText args) \<and> \<not> hasLabels args
         then
           (let filterArgs =
                  \<lparr> fa_query = ''assigned to: '' @ the assigneeEmail,
                    fa_lang = Some ''en'',
                    fa_cursor = cursor args,
                    fa_limit = Some (limit args) \<rparr>
            in andThen (await (CallGetTasksByFilter filterArgs)
                          (api_getTasksByFilter client filterArgs)) (\<lambda>page.
                 let mappedTasks = map mapTask (api_results page)
                 in returns (structured mappedTasks (api_nextCursor page) args)))
         else
           (let q0 = (if truthy (searchText args) then ''search: '' @ the (searchText args) else []);
                labelsFilter = generateLabelsFilter (labels args) (labelsOperator args);
                q = appendToQuery q0 labelsFilter;
                filterArgs = \<lparr> fa_query = q, fa_lang = None, fa_cursor = cursor args,
                               fa_limit = Some (limit args) \<rparr>
            in andThen (await (CallGetTasksByFilter filterArgs)
                          (getTasksByFilter client q (Some (limit args)) (cursor args))) (\<lambda>result.
                 let ts = filterTasksByResponsibleUser (page_tasks result) resolvedAssigneeId
                            (user_id todoistUser) (responsibleUserFiltering args)
                 in returns (structured ts (page_nextCursor result) args)))))"

section \<open>utils: sanitize-data\<close>




section \<open>Specification predicates\<close>





section \<open>Sample inputs\<close>

text \<open>Concrete values on which the properties below are evaluated.\<close>

definition assignedToMe :: HasResponsibleUid where
  "assignedToMe = \<lparr> responsibleUid = Some ''me'' \<rparr>"

definition assignedToOther :: HasResponsibleUid where
  "assignedToOther = \<lparr> responsibleUid = Some ''other'' \<rparr>"

definition assignedToNobody :: HasResponsibleUid where
  "assignedToNobody = \<lparr> responsibleUid = None \<rparr>"

definition urgentApiTask :: Task where
  "urgentApiTask =
     \<lparr> task_id = ''8485093748'', task_content = ''Pay the invoice'', task_description = [],
       task_due = None, task_priority = 4, task_projectId = ''6cfCcrrCFg2xP94Q'',
       task_sectionId = None, task_parentId = None, task_labels = [],
       task_duration = None, task_responsibleUid = None, task_assignedByUid = None \<rparr>"


definition sampleUrl :: "string \<Rightarrow> string \<Rightarrow> string" where
  "sampleUrl kind i = ''https://app.todoist.com/app/'' @ kind @ ''/'' @ i"

definition sampleTask :: "string \<Rightarrow> string \<Rightarrow> Task" where
  "sampleTask i c =
     \<lparr> task_id = i, task_content = c, task_description = [],
       task_due = None, task_priority = 1, task_projectId = ''6cfCcrrCFg2xP94Q'',
       task_sectionId = None, task_parentId = None, task_labels = [],
       task_duration = None, task_responsibleUid = None, task_assignedByUid = None \<rparr>"

definition sampleProject :: "string \<Rightarrow> string \<Rightarrow> Project" where
  "sampleProject i n =
     \<lparr> project_id = i, project_name = n, project_color = ''blue'',
       project_isFavorite = False, project_isShared = False, project_viewStyle = ''list'',
       project_variant = PersonalProject None (Some False) \<rparr>"

definition failingClient :: "exn \<Rightarrow> TodoistApi" where
  "failingClient e =
     \<lparr> api_getUser = Inl e,
       api_getTask = (\<lambda>_. Inl e),
       api_getProject = (\<lambda>_. Inl e),
       api_getProjects = (\<lambda>_. Inl e),
       api_getTasks = (\<lambda>_. Inl e),
       api_getTasksByFilter = (\<lambda>_. Inl e),
       api_resolveUserNameToId = (\<lambda>_. Inl e) \<rparr>"

definition searchClient :: TodoistApi where
  "searchClient =
     \<lparr> api_getUser = Inr \<lparr> user_id = ''me'' \<rparr>,
       api_getTask = (\<lambda>_. Inl (newError ''Task not found'')),
       api_getProject = (\<lambda>_. Inl (newError ''Project not found'')),
       api_getProjects = (\<lambda>_. Inr [sampleProject ''p-work'' ''Important Work Project'',
                                      sampleProject ''p-test'' ''Test Project'']),
       api_getTasks = (\<lambda>_. Inr \<lparr> api_results = [], api_nextCursor = None \<rparr>),
       api_getTasksByFilter =
         (\<lambda>_. Inr \<lparr> api_results = [sampleTask ''t1'' ''Important meeting task'',
                                       sampleTask ''t2'' ''Another important item''],
                       api_nextCursor = None \<rparr>),
       api_resolveUserNameToId = (\<lambda>_. Inr None) \<rparr>"

definition structuredError :: "string \<Rightarrow> int \<Rightarrow> string \<Rightarrow> exn" where
  "structuredError message code tag =
     ErrorObj message
       [(''httpStatusCode'', JNum 400),
        (''responseData'', JObj [(''error'', JStr message), (''errorCode'', JNum code),
                                 (''errorTag'', JStr tag)])]"


definition noFilterArgs :: FindTasksArgs where
  "noFilterArgs =
     \<lparr> limit = 10, cursor = None, responsibleUserFiltering = None, labels = None,
       labelsOperator = None, searchText = None, projectId = None, sectionId = None,
       parentId = None, responsibleUser = None \<rparr>"

section \<open>Properties\<close>

subsection \<open>appendToQuery\<close>

text \<open>
  C9. \<open>appendToQuery q c\<close> is \<open>q\<close> when \<open>c\<close> is empty, \<open>c\<close> when \<open>q\<close> is
  empty, and \<open>q & c\<close> otherwise. So the empty string is an identity on
  both sides, and the result begins (ends) with the character \<open>&\<close> only
  if \<open>q\<close> or \<open>c\<close> already does.
\<close>

theorem appendToQuery_identity:
  "appendToQuery q [] = q
   \<and> appendToQuery [] c = c
   \<and> (q \<noteq> [] \<and> c \<noteq> [] \<longrightarrow> appendToQuery q c = q @ '' & '' @ c)
   \<and> (\<not> prefix ''&'' q \<and> \<not> prefix ''&'' c \<longrightarrow> \<not> prefix ''&'' (appendToQuery q c))
   \<and> (\<not> suffix ''&'' q \<and> \<not> suffix ''&'' c \<longrightarrow> \<not> suffix ''&'' (appendToQuery q c))"
proof -
  have pre: "\<not> prefix ''&'' (q @ '' & '' @ c)" if "\<not> prefix ''&'' q" "q \<noteq> []"
    using that by (cases q) (auto simp: prefix_Cons)
  have suf: "\<not> suffix ''&'' (q @ '' & '' @ c)" if h1: "\<not> suffix ''&'' c" and h2: "c \<noteq> []"
  proof -
    obtain ys y where c: "c = ys @ [y]" using h2 by (meson rev_exhaust)
    with h1 have "y \<noteq> CHR ''&''" by (auto simp: suffix_def)
    then show ?thesis unfolding c by (auto simp: suffix_def)
  qed
  show ?thesis
    using pre suf by (auto simp: appendToQuery_def)
qed

theorem appendToQuery_identity_witness:
  "''search: x'' \<noteq> [] \<and> ''(@work)'' \<noteq> []
   \<and> \<not> prefix ''&'' ''search: x'' \<and> \<not> prefix ''&'' ''(@work)''
   \<and> \<not> suffix ''&'' ''search: x'' \<and> \<not> suffix ''&'' ''(@work)''
   \<and> appendToQuery ''search: x'' ''(@work)'' = ''search: x & (@work)''
   \<and> \<not> prefix ''&'' (appendToQuery ''search: x'' ''(@work)'')
   \<and> \<not> suffix ''&'' (appendToQuery ''search: x'' ''(@work)'')"
  using appendToQuery_identity [of "''search: x''" "''(@work)''"]
  by (simp add: suffix_def)

subsection \<open>filterTasksByResponsibleUser\<close>

text \<open>
  C4. With a resolved assignee id (a non-empty string, which is what the
  source's truthiness test takes as provided) the result is exactly the tasks
  whose \<open>responsibleUid\<close> is that id, whatever the mode. Without one, the mode
  \<open>unassignedOrMe\<close> (also the default) keeps exactly the tasks whose
  \<open>responsibleUid\<close> is null, empty or the current user, and the modes
  \<open>assigned\<close> and \<open>all\<close> return the list as it is.
\<close>

theorem filterTasksByResponsibleUser_modes:
  "(a \<noteq> [] \<longrightarrow>
      filterTasksByResponsibleUser ts (Some a) me mode
        = filter (\<lambda>t. responsibleUid t = Some a) ts)
   \<and> ((r = None \<or> r = Some []) \<and> (mode = None \<or> mode = Some unassignedOrMe) \<longrightarrow>
      filterTasksByResponsibleUser ts r me mode
        = filter (\<lambda>t. responsibleUid t = None \<or> responsibleUid t = Some []
                        \<or> responsibleUid t = Some me) ts)
   \<and> ((r = None \<or> r = Some []) \<and> (mode = Some assigned \<or> mode = Some all) \<longrightarrow>
      filterTasksByResponsibleUser ts r me mode = ts)"
proof -
  have eq: "(\<not> truthy u \<or> u = Some me) = (u = None \<or> u = Some [] \<or> u = Some me)" for u
    by (cases u) (auto simp: truthy_def)
  show ?thesis
    by (auto simp: filterTasksByResponsibleUser_def truthy_def eq split: option.splits
             intro!: filter_cong)
qed

theorem filterTasksByResponsibleUser_modes_witness:
  "''other'' \<noteq> []
   \<and> filterTasksByResponsibleUser [assignedToMe, assignedToOther, assignedToNobody]
        (Some ''other'') ''me'' (Some all) = [assignedToOther]
   \<and> filterTasksByResponsibleUser [assignedToMe, assignedToOther, assignedToNobody]
        None ''me'' None = [assignedToMe, assignedToNobody]
   \<and> filterTasksByResponsibleUser [assignedToMe, assignedToOther, assignedToNobody]
        None ''me'' (Some assigned) = [assignedToMe, assignedToOther, assignedToNobody]"
  using filterTasksByResponsibleUser_modes
    [of "''other''" "[assignedToMe, assignedToOther, assignedToNobody]" "''me''" "Some all" None]
    filterTasksByResponsibleUser_modes
    [of "''other''" "[assignedToMe, assignedToOther, assignedToNobody]" "''me''" "None" None]
    filterTasksByResponsibleUser_modes
    [of "''other''" "[assignedToMe, assignedToOther, assignedToNobody]" "''me''" "Some assigned" None]
  by (simp add: assignedToMe_def assignedToOther_def assignedToNobody_def)

subsection \<open>Priority of a mapped task\<close>

text \<open>
  C7, as stated, fails: a raw task with the API priority 4 is mapped to a task
  whose priority is 4, not 1.
\<close>

theorem mapTask_priority_counterexample:
  "priority (mapTask urgentApiTask) = 4 \<and> priority (mapTask urgentApiTask) \<noteq> 1"
  by (simp add: mapTask_def urgentApiTask_def)

text \<open>
  C7, amended. \<open>mapTask\<close> copies the API priority unchanged, so the mapped
  priority is in the range 1 to 4 whenever the API value is. The inverted,
  user-facing scale is what \<open>convertNumberToPriority\<close> computes: 4 is \<open>p1\<close>,
  3 is \<open>p2\<close>, 2 is \<open>p3\<close>, 1 is \<open>p4\<close>, and any other number has no
  priority name.
\<close>

theorem mapTask_priority_unchanged:
  "priority (mapTask task) = task_priority task
   \<and> (1 \<le> task_priority task \<and> task_priority task \<le> 4
        \<longrightarrow> 1 \<le> priority (mapTask task) \<and> priority (mapTask task) \<le> 4)
   \<and> convertNumberToPriority 4 = Some p1 \<and> convertNumberToPriority 3 = Some p2
   \<and> convertNumberToPriority 2 = Some p3 \<and> convertNumberToPriority 1 = Some p4
   \<and> (n < 1 \<or> 4 < n \<longrightarrow> convertNumberToPriority n = None)"
  by (auto simp: mapTask_def convertNumberToPriority_def)

theorem mapTask_priority_unchanged_witness:
  "(1::int) \<le> task_priority urgentApiTask \<and> task_priority urgentApiTask \<le> 4
   \<and> priority (mapTask urgentApiTask) = 4
   \<and> (4::int) < 7 \<and> convertNumberToPriority 7 = None"
  using mapTask_priority_unchanged [of urgentApiTask 7]
  by (simp add: urgentApiTask_def)

subsection \<open>Label expressions\<close>

lemma join_concat: "join sep (x # xs) = x @ concat (map (\<lambda>y. sep @ y) xs)"
  by (induction xs arbitrary: x) simp_all

text \<open>
  C8. The label fragment is empty for an empty (or absent) label list; it is
  \<open>(@x)\<close> for a single label, a leading \<open>@\<close> of the input being kept
  once; and for several labels it is one parenthesised fragment in which the
  prefixed labels are separated by the operator between double spaces,
  \<open>&\<close> for \<open>and\<close>, and \<open>|\<close> for \<open>or\<close> and for the default.
\<close>

theorem generateLabelsFilter_fragment:
  "generateLabelsFilter None operator = []
   \<and> generateLabelsFilter (Some []) operator = []
   \<and> generateLabelsFilter (Some [x]) operator = ''('' @ normalizeLabel x @ '')''
   \<and> normalizeLabel (CHR ''@'' # y) = CHR ''@'' # y
   \<and> (\<not> prefix ''@'' x \<longrightarrow> normalizeLabel x = CHR ''@'' # x)
   \<and> generateLabelsFilter (Some (x # xs)) (Some And)
       = ''('' @ normalizeLabel x @ concat (map (\<lambda>l. ''  &  '' @ normalizeLabel l) xs) @ '')''
   \<and> (operator = None \<or> operator = Some Or \<longrightarrow>
        generateLabelsFilter (Some (x # xs)) operator
          = ''('' @ normalizeLabel x @ concat (map (\<lambda>l. ''  |  '' @ normalizeLabel l) xs) @ '')'')
   \<and> generateLabelsFilter (Some [''work'', ''urgent'']) (Some And) = ''(@work  &  @urgent)''
   \<and> generateLabelsFilter (Some [''work'']) None = ''(@work)''"
proof -
  have shapeAnd: "generateLabelsFilter (Some (x # xs)) (Some And)
      = ''('' @ normalizeLabel x @ concat (map (\<lambda>l. ''  &  '' @ normalizeLabel l) xs) @ '')''"
    by (simp add: generateLabelsFilter_def join_concat comp_def operatorJoiner_def)
  have shapeOr: "operator = None \<or> operator = Some Or \<longrightarrow>
        generateLabelsFilter (Some (x # xs)) operator
          = ''('' @ normalizeLabel x @ concat (map (\<lambda>l. ''  |  '' @ normalizeLabel l) xs) @ '')''"
    by (auto simp: generateLabelsFilter_def join_concat comp_def operatorJoiner_def)
  have norm: "normalizeLabel (CHR ''@'' # y) = CHR ''@'' # y"
    "\<not> prefix ''@'' x \<longrightarrow> normalizeLabel x = CHR ''@'' # x"
    by (simp_all add: normalizeLabel_def)
  have examples:
    "generateLabelsFilter (Some [''work'', ''urgent'']) (Some And) = ''(@work  &  @urgent)''"
    "generateLabelsFilter (Some [''work'']) None = ''(@work)''"
    by (simp_all add: generateLabelsFilter_def normalizeLabel_def operatorJoiner_def)
  have empty: "generateLabelsFilter None operator = []"
    "generateLabelsFilter (Some []) operator = []"
    "generateLabelsFilter (Some [x]) operator = ''('' @ normalizeLabel x @ '')''"
    by (simp_all add: generateLabelsFilter_def)
  from shapeAnd shapeOr norm examples empty show ?thesis
    by blast
qed

theorem generateLabelsFilter_fragment_witness:
  "\<not> prefix ''@'' ''personal''
   \<and> generateLabelsFilter (Some [''@work'', ''personal'']) None = ''(@work  |  @personal)''
   \<and> generateLabelsFilter (Some [''work'', ''urgent'']) (Some Or) = ''(@work  |  @urgent)''"
  using generateLabelsFilter_fragment [of None "''personal''" "''work''" "[]"]
    generateLabelsFilter_fragment [of "Some Or" "''work''" "''work''" "[''urgent'']"]
  by (simp add: generateLabelsFilter_def normalizeLabel_def operatorJoiner_def)

subsection \<open>removeNullFields\<close>






subsection \<open>fetch: malformed composite ids\<close>

lemma splitOn_not_Nil: "splitOn c s \<noteq> []"
  by (induction s) (auto split: list.splits)

lemma splitOn_no_separator: "c \<notin> set s \<Longrightarrow> splitOn c s = [s]"
  by (induction s) auto

lemma splitOn_first_separator:
  "c \<in> set s \<Longrightarrow>
     splitOn c s = takeWhile (\<lambda>x. x \<noteq> c) s # splitOn c (drop 1 (dropWhile (\<lambda>x. x \<noteq> c) s))"
proof (induction s)
  case Nil
  then show ?case by simp
next
  case (Cons x xs)
  show ?case
  proof (cases "x = c")
    case True
    then show ?thesis by simp
  next
    case False
    with Cons.prems have "c \<in> set xs" by simp
    from Cons.IH [OF this] False show ?thesis by simp
  qed
qed

lemma splitOn_head:
  "\<exists>rest. splitOn c s = takeWhile (\<lambda>x. x \<noteq> c) s # rest"
proof (cases "c \<in> set s")
  case True
  then show ?thesis using splitOn_first_separator by blast
next
  case False
  then have tw: "takeWhile (\<lambda>x. x \<noteq> c) s = s" by (induction s) auto
  show ?thesis
    by (rule exI [of _ "[]"]) (simp add: splitOn_no_separator [OF False] tw)
qed

lemma includesStr_prefix: "prefix t s \<Longrightarrow> includesStr s t"
  by (cases s) auto

lemma fetch_try_invalid:
  assumes "\<not> ((takeWhile (\<lambda>x. x \<noteq> CHR '':'') id0 = ''task''
              \<or> takeWhile (\<lambda>x. x \<noteq> CHR '':'') id0 = ''project'')
             \<and> drop 1 (dropWhile (\<lambda>x. x \<noteq> CHR '':'') id0) \<noteq> [])"
  shows "fetch_try buildTodoistUrl client id0 = Inl (newError invalidIdMessage)"
proof (cases "CHR '':'' \<in> set id0")
  case False
  then show ?thesis
    by (simp add: fetch_try_def splitLimit_def splitOn_no_separator truthy_def)
next
  case True
  let ?rest = "drop 1 (dropWhile (\<lambda>x. x \<noteq> CHR '':'') id0)"
  obtain more where more: "splitOn CHR '':'' ?rest = takeWhile (\<lambda>x. x \<noteq> CHR '':'') ?rest # more"
    using splitOn_head by blast
  have parts: "splitLimit CHR '':'' 2 id0
      = [takeWhile (\<lambda>x. x \<noteq> CHR '':'') id0, takeWhile (\<lambda>x. x \<noteq> CHR '':'') ?rest]"
    using splitOn_first_separator [OF True] more
    by (simp add: splitLimit_def numeral_2_eq_2)
  from assms show ?thesis
    unfolding fetch_try_def parts
    by (auto simp: truthy_def Let_def)
qed

text \<open>
  C3. Take the part of the id before its first colon and the remainder after
  that colon (empty when there is no colon). Unless the first part is exactly
  \<open>task\<close> or exactly \<open>project\<close> and the remainder is non-empty,
  \<open>fetch.execute\<close> returns, and does not throw, the envelope with
  \<open>isError\<close> true and a single text item, whose text contains
  \<open>Invalid ID format\<close>. The input \<open>invalid-id\<close> is such an id.
\<close>

theorem fetch_invalid_id:
  "\<not> ((takeWhile (\<lambda>x. x \<noteq> CHR '':'') id0 = ''task''
        \<or> takeWhile (\<lambda>x. x \<noteq> CHR '':'') id0 = ''project'')
       \<and> drop 1 (dropWhile (\<lambda>x. x \<noteq> CHR '':'') id0) \<noteq> [])
   \<Longrightarrow> fetch_execute buildTodoistUrl client id0
         = \<lparr> out_content = [PlainText invalidIdMessage], isError = Some True \<rparr>
       \<and> includesStr invalidIdMessage ''Invalid ID format''"
proof -
  assume bad: "\<not> ((takeWhile (\<lambda>x. x \<noteq> CHR '':'') id0 = ''task''
        \<or> takeWhile (\<lambda>x. x \<noteq> CHR '':'') id0 = ''project'')
       \<and> drop 1 (dropWhile (\<lambda>x. x \<noteq> CHR '':'') id0) \<noteq> [])"
  have "includesStr invalidIdMessage ''Invalid ID format''"
    by (rule includesStr_prefix) (simp add: invalidIdMessage_def)
  moreover have "fetch_execute buildTodoistUrl client id0
         = \<lparr> out_content = [PlainText invalidIdMessage], isError = Some True \<rparr>"
    by (simp add: fetch_execute_def fetch_try_invalid [OF bad] getErrorOutput_def
        errorMessage_def newError_def)
  ultimately show ?thesis by blast
qed

theorem fetch_invalid_id_witness:
  "\<not> ((takeWhile (\<lambda>x. x \<noteq> CHR '':'') ''invalid-id'' = ''task''
        \<or> takeWhile (\<lambda>x. x \<noteq> CHR '':'') ''invalid-id'' = ''project'')
       \<and> drop 1 (dropWhile (\<lambda>x. x \<noteq> CHR '':'') ''invalid-id'') \<noteq> [])
   \<and> fetch_execute sampleUrl searchClient ''invalid-id''
       = \<lparr> out_content = [PlainText invalidIdMessage], isError = Some True \<rparr>
   \<and> includesStr invalidIdMessage ''Invalid ID format''"
proof -
  have bad: "\<not> ((takeWhile (\<lambda>x. x \<noteq> CHR '':'') ''invalid-id'' = ''task''
        \<or> takeWhile (\<lambda>x. x \<noteq> CHR '':'') ''invalid-id'' = ''project'')
       \<and> drop 1 (dropWhile (\<lambda>x. x \<noteq> CHR '':'') ''invalid-id'') \<noteq> [])"
    by simp
  from bad fetch_invalid_id [OF bad, of sampleUrl searchClient] show ?thesis by blast
qed

subsection \<open>search: tasks first, then matching projects\<close>

lemma includesStr_sublist: "includesStr s t \<longleftrightarrow> sublist t s"
  by (induction s) (auto simp: sublist_Cons_right)





subsection \<open>getTasksByFilter: error translation\<close>

text \<open>
  C6. When the upstream \<open>getTasksByFilter\<close> call fails: an error that does not
  match the structured shape is thrown again unchanged; an error of the
  structured shape with the tag \<open>INVALID_SEARCH_QUERY\<close> becomes an error with
  the message \<open>Invalid filter query: <query>\<close> for the query that was sent;
  an error of the structured shape with any other tag becomes an error with
  the message \<open><message> (tag: <tag>, code: <code>)\<close>.
\<close>

theorem getTasksByFilter_error_translation:
  assumes "api_getTasksByFilter client
             \<lparr> fa_query = q, fa_lang = None, fa_cursor = cur, fa_limit = lim \<rparr> = Inl err"
  shows "(ErrorSchema_safeParse err = None \<longrightarrow> getTasksByFilter client q lim cur = Inl err)
     \<and> (\<forall>parsed. ErrorSchema_safeParse err = Some parsed \<longrightarrow>
          (rd_errorTag (responseData parsed) = ''INVALID_SEARCH_QUERY'' \<longrightarrow>
             getTasksByFilter client q lim cur = Inl (newError (''Invalid filter query: '' @ q)))
          \<and> (rd_errorTag (responseData parsed) \<noteq> ''INVALID_SEARCH_QUERY'' \<longrightarrow>
             getTasksByFilter client q lim cur
               = Inl (newError (rd_error (responseData parsed)
                        @ '' (tag: '' @ rd_errorTag (responseData parsed)
                        @ '', code: '' @ showInt (rd_errorCode (responseData parsed)) @ '')''))))"
  using assms by (simp add: getTasksByFilter_def Let_def)

lemma ErrorSchema_safeParse_structured:
  "ErrorSchema_safeParse (structuredError message code tag)
     = Some \<lparr> httpStatusCode = 400,
              responseData = \<lparr> rd_error = message, rd_errorCode = code, rd_errorTag = tag \<rparr> \<rparr>"
  by (simp add: ErrorSchema_safeParse_def structuredError_def ownProperties_def
      parseResponseData_def)

theorem getTasksByFilter_error_translation_witness:
  "getTasksByFilter (failingClient (structuredError ''Bad query'' 400 ''INVALID_SEARCH_QUERY''))
       ''search: & |'' (Some 10) None
     = Inl (newError ''Invalid filter query: search: & |'')
   \<and> getTasksByFilter (failingClient (structuredError ''Forbidden'' 403 ''AUTH_INVALID_TOKEN''))
       ''today'' (Some 10) None
     = Inl (newError ''Forbidden (tag: AUTH_INVALID_TOKEN, code: 403)'')
   \<and> getTasksByFilter (failingClient (newError ''socket hang up'')) ''today'' (Some 10) None
     = Inl (newError ''socket hang up'')"
proof -
  have call: "api_getTasksByFilter (failingClient e)
      \<lparr> fa_query = q, fa_lang = None, fa_cursor = None, fa_limit = Some 10 \<rparr> = Inl e" for e q
    by (simp add: failingClient_def)
  have plain: "ErrorSchema_safeParse (newError ''socket hang up'') = None"
    by (simp add: ErrorSchema_safeParse_def newError_def ownProperties_def)
  have code: "showInt 403 = ''403''"
    by code_simp
  show ?thesis
    using getTasksByFilter_error_translation [OF call, of "structuredError ''Bad query'' 400 ''INVALID_SEARCH_QUERY''" "''search: & |''"]
      getTasksByFilter_error_translation [OF call, of "structuredError ''Forbidden'' 403 ''AUTH_INVALID_TOKEN''" "''today''"]
      getTasksByFilter_error_translation [OF call, of "newError ''socket hang up''" "''today''"]
    by (simp add: ErrorSchema_safeParse_structured plain code)
qed

subsection \<open>find-tasks-by-date: the date fragment\<close>





























subsection \<open>find-tasks: the missing-filter check\<close>

text \<open>
  C1, as stated, fails: \<open>findTasks.execute\<close> awaits \<open>client.getUser()\<close> before
  it looks at the filters. Called with no filter at all it has made one
  upstream call by the time it rejects, and when that call fails the run ends
  with the upstream failure instead of the validation error.
\<close>

theorem findTasks_validation_counterexample:
  "findTasks_execute searchClient noFilterArgs
     = ([CallGetUser], Inl (newError missingFilterMessage))
   \<and> fst (findTasks_execute searchClient noFilterArgs) \<noteq> []
   \<and> findTasks_execute (failingClient (newError ''socket hang up'')) noFilterArgs
     = ([CallGetUser], Inl (newError ''socket hang up''))"
  by (simp add: findTasks_execute_def andThen_def await_def throw_def hasLabels_def
      truthy_def noFilterArgs_def searchClient_def failingClient_def)

text \<open>
  C1, amended. With no search text, no project, section or parent id, no
  responsible user and an empty or absent label list, \<open>findTasks.execute\<close>
  makes exactly one upstream call, \<open>getUser\<close>. If that call succeeds the run
  is rejected with the validation error, whose message names the six filter
  fields; if it fails, its failure is what is thrown. No user lookup and no
  task query is made.
\<close>

theorem findTasks_missing_filter:
  assumes "\<not> truthy (searchText args)" and "\<not> truthy (projectId args)"
    and "\<not> truthy (sectionId args)" and "\<not> truthy (parentId args)"
    and "\<not> truthy (responsibleUser args)"
    and "labels args = None \<or> labels args = Some []"
  shows "findTasks_execute client args
     = ([CallGetUser],
        (case api_getUser client of
           Inl e \<Rightarrow> Inl e
         | Inr todoistUser \<Rightarrow> Inl (newError missingFilterMessage)))
     \<and> list_all (includesStr missingFilterMessage)
          [''searchText'', ''projectId'', ''sectionId'', ''parentId'', ''responsibleUser'',
           ''labels'']"
proof -
  have names: "list_all (includesStr missingFilterMessage)
          [''searchText'', ''projectId'', ''sectionId'', ''parentId'', ''responsibleUser'',
           ''labels'']"
    by code_simp
  have run: "findTasks_execute client args
     = ([CallGetUser],
        (case api_getUser client of
           Inl e \<Rightarrow> Inl e
         | Inr todoistUser \<Rightarrow> Inl (newError missingFilterMessage)))"
    using assms
    by (cases "api_getUser client")
       (auto simp: findTasks_execute_def andThen_def await_def throw_def hasLabels_def)
  from run names show ?thesis by (rule conjI)
qed

theorem findTasks_missing_filter_witness:
  "\<not> truthy (searchText noFilterArgs) \<and> \<not> truthy (projectId noFilterArgs)
   \<and> \<not> truthy (sectionId noFilterArgs) \<and> \<not> truthy (parentId noFilterArgs)
   \<and> \<not> truthy (responsibleUser noFilterArgs) \<and> labels noFilterArgs = None
   \<and> findTasks_execute searchClient noFilterArgs
       = ([CallGetUser], Inl (newError missingFilterMessage))"
proof -
  have h: "\<not> truthy (searchText noFilterArgs)" "\<not> truthy (projectId noFilterArgs)"
    "\<not> truthy (sectionId noFilterArgs)" "\<not> truthy (parentId noFilterArgs)"
    "\<not> truthy (responsibleUser noFilterArgs)"
    by (simp_all add: noFilterArgs_def truthy_def)
  have l: "labels noFilterArgs = None"
    by (simp add: noFilterArgs_def)
  then have l': "labels noFilterArgs = None \<or> labels noFilterArgs = Some []" by (rule disjI1)
  have "findTasks_execute searchClient noFilterArgs
       = ([CallGetUser], Inl (newError missingFilterMessage))"
    using findTasks_missing_filter [OF h l', of searchClient]
    by (simp add: searchClient_def)
  with h l show ?thesis by (intro conjI)
qed

end
